theory Spec2Isabelle
  imports Complex_Main
begin

section \<open>Python values shared by both samplers\<close>

text \<open>
  Exceptions are values. \<open>ValueError\<close> carries the fixed part of its message, so
  that the raise sites of one function can be told apart.
\<close>

datatype error =
    ValueError string
  | NotImplementedError
  | AttributeError
  | TypeError
  | IndexError
  | CollaboratorError string

text \<open>
  A numpy array is its shape and its entries in row-major order. Every array built here
  has \<open>length (data a) = prod_list (shape a)\<close>; arrays handed in by a caller are
  expected to be well formed in the same way.
\<close>

record ndarray =
  shape :: "nat list"
  data :: "real list"

text \<open>\<open>np.zeros(dims)\<close> and \<open>np.ones(dims)\<close>: numpy rejects a negative dimension.\<close>

definition np_full :: "real \<Rightarrow> int list \<Rightarrow> error + ndarray" where
  "np_full v dims =
     (if list_ex (\<lambda>d. d < 0) dims
      then Inl (ValueError ''negative dimensions are not allowed'')
      else Inr \<lparr>shape = map nat dims, data = replicate (prod_list (map nat dims)) v\<rparr>)"

definition np_zeros :: "int list \<Rightarrow> error + ndarray" where
  "np_zeros dims = np_full 0 dims"

definition np_ones :: "int list \<Rightarrow> error + ndarray" where
  "np_ones dims = np_full 1 dims"

text \<open>\<open>a - 1.0\<close>: a scalar is subtracted from every entry.\<close>

definition np_sub_scalar :: "ndarray \<Rightarrow> real \<Rightarrow> ndarray" where
  "np_sub_scalar a c = a\<lparr>data := map (\<lambda>x. x - c) (data a)\<rparr>"

section \<open>TransitionMatrixSampler (tmatrix\_sampler.py)\<close>

text \<open>
  The three sampler classes \<open>SamplerRev\<close>, \<open>SamplerRevPi\<close> and \<open>SamplerNonRev\<close>
  are compiled collaborators. A constructed sampler is recorded by the arguments it was
  constructed on; what its \<open>sample\<close> method draws is a parameter of the model
  (\<open>draws\<close> below).
\<close>

datatype inner_sampler =
    SamplerRev ndarray "ndarray option"
  | SamplerRevPi ndarray ndarray "ndarray option"
  | SamplerNonRev ndarray

record tmatrix_sampler =
  count_matrix :: ndarray
  sampler :: inner_sampler
  n_steps :: real

text \<open>
  The signature is
  \<^verbatim>\<open>__init__(self, count_matrix, reversible=False, mu=None, P0=None, n_steps=1, prior='sparse')\<close>.
  \<open>n_steps\<close> is \<open>None\<close> only when the caller passes \<open>None\<close>; a caller who leaves the
  argument out gets the signature's default, 1. \<open>math.sqrt\<close> returns a float, which
  is read as the real square root here.
\<close>

definition n_steps_default :: "real option" where
  "n_steps_default = Some 1"

definition TransitionMatrixSampler_init ::
  "ndarray \<Rightarrow> bool \<Rightarrow> ndarray option \<Rightarrow> ndarray option \<Rightarrow> real option \<Rightarrow> string
     \<Rightarrow> error + tmatrix_sampler" where
  "TransitionMatrixSampler_init cm reversible mu P0 n_steps_arg prior =
     (if prior \<noteq> ''sparse''
      then Inl (ValueError ''Only Sparse prior is currently implemented'')
      else if reversible then
        (case mu of
           None \<Rightarrow>
             (case n_steps_arg of
                None \<Rightarrow>
                  (case shape cm of
                     [] \<Rightarrow> Inl IndexError
                   | n # _ \<Rightarrow>
                       Inr \<lparr>count_matrix = cm, sampler = SamplerRev cm P0,
                            n_steps = sqrt (real n)\<rparr>)
              | Some k \<Rightarrow>
                  Inr \<lparr>count_matrix = cm, sampler = SamplerRev cm P0, n_steps = k\<rparr>)
         | Some m \<Rightarrow>
             Inr \<lparr>count_matrix = cm, sampler = SamplerRevPi cm m P0,
                  n_steps = (case n_steps_arg of None \<Rightarrow> 6 | Some k \<Rightarrow> k)\<rparr>)
      else
        (case mu of
           None \<Rightarrow>
             Inr \<lparr>count_matrix = cm, sampler = SamplerNonRev (np_sub_scalar cm 1),
                  n_steps = 1\<rparr>
         | Some m \<Rightarrow>
             Inl (ValueError
               ''Non reversible sampling with fixed stationary vector not implemented'')))"










section \<open>numpy arithmetic used by the Gibbs sweep\<close>

text \<open>
  \<open>unravel\<close> and \<open>ravel\<close> convert between a row-major position and a multi-index.
\<close>

fun unravel :: "nat list \<Rightarrow> nat \<Rightarrow> nat list" where
  "unravel [] k = []"
| "unravel (d # ds) k = (k div prod_list ds) # unravel ds (k mod prod_list ds)"

fun ravel :: "nat list \<Rightarrow> nat list \<Rightarrow> nat" where
  "ravel (d # ds) (i # is) = i * prod_list ds + ravel ds is"
| "ravel ds is = 0"

text \<open>
  Broadcasting (\<open>a + b\<close>): shapes are aligned at their trailing axes; two axes are
  compatible when they are equal or one of them is 1; otherwise numpy raises
  \<open>ValueError\<close>. \<open>broadcast_rev\<close> works on reversed shapes, trailing axis first.
\<close>

fun broadcast_rev :: "nat list \<Rightarrow> nat list \<Rightarrow> nat list option" where
  "broadcast_rev [] ys = Some ys"
| "broadcast_rev (x # xs) [] = Some (x # xs)"
| "broadcast_rev (x # xs) (y # ys) =
     (if x = y \<or> x = 1 \<or> y = 1
      then map_option ((#) (if x = 1 then y else x)) (broadcast_rev xs ys)
      else None)"

definition pad_shape :: "nat \<Rightarrow> nat list \<Rightarrow> nat list" where
  "pad_shape n s = replicate (n - length s) 1 @ s"

definition broadcast_entry :: "ndarray \<Rightarrow> nat list \<Rightarrow> nat \<Rightarrow> real" where
  "broadcast_entry a rs k =
     (let ps = pad_shape (length rs) (shape a)
      in data a ! ravel ps (map2 (\<lambda>d i. if d = 1 then 0 else i) ps (unravel rs k)))"

definition np_add :: "ndarray \<Rightarrow> ndarray \<Rightarrow> error + ndarray" where
  "np_add a b =
     (case broadcast_rev (rev (shape a)) (rev (shape b)) of
        None \<Rightarrow> Inl (ValueError ''operands could not be broadcast together'')
      | Some r \<Rightarrow>
          Inr \<lparr>shape = rev r,
               data = map (\<lambda>k. broadcast_entry a (rev r) k + broadcast_entry b (rev r) k)
                        [0..<prod_list r]\<rparr>)"

text \<open>\<open>a.T\<close> reverses the axes.\<close>

definition np_T :: "ndarray \<Rightarrow> ndarray" where
  "np_T a =
     \<lparr>shape = rev (shape a),
      data = map (\<lambda>k. data a ! ravel (shape a) (rev (unravel (rev (shape a)) k)))
               [0..<prod_list (shape a)]\<rparr>"

text \<open>
  \<^verbatim>\<open>zeros = np.where(S == 0);  C[zeros] = 0\<close>. The index arrays come from \<open>S\<close>; they
  address \<open>C\<close> entry by entry when both have one shape, which is the case for
  \<open>S = P0 + P0.T\<close> with \<open>P0\<close> the square matrix estimated from \<open>C\<close>. Another shape
  is reported as \<open>IndexError\<close>.
\<close>

definition zero_where :: "ndarray \<Rightarrow> ndarray \<Rightarrow> error + ndarray" where
  "zero_where S C =
     (if shape S = shape C
      then Inr (C\<lparr>data := map2 (\<lambda>s c. if s = 0 then 0 else c) (data S) (data C)\<rparr>)
      else Inl IndexError)"

text \<open>
  \<^verbatim>\<open>p0 = np.zeros_like(n0);  p0[positive] = values\<close> with a boolean mask: the values
  fill the positions where the mask is true, in order. numpy raises \<open>IndexError\<close> when
  the mask has another shape than \<open>p0\<close> and \<open>ValueError\<close> when the number of values
  is not the number of true positions.
\<close>

fun scatter :: "bool list \<Rightarrow> real list \<Rightarrow> real list" where
  "scatter [] vs = []"
| "scatter (True # bs) (v # vs) = v # scatter bs vs"
| "scatter (True # bs) [] = 0 # scatter bs []"
| "scatter (False # bs) vs = 0 # scatter bs vs"

definition masked_assign :: "ndarray \<Rightarrow> nat list \<Rightarrow> bool list \<Rightarrow> real list \<Rightarrow> error + ndarray" where
  "masked_assign n0 positive_shape positive vs =
     (if positive_shape \<noteq> shape n0 then Inl IndexError
      else if length vs \<noteq> length (filter id positive)
      then Inl (ValueError ''cannot assign input values to the output values where the mask is true'')
      else Inr \<lparr>shape = shape n0, data = scatter positive vs\<rparr>)"

section \<open>The hidden Markov model and the posterior\<close>

text \<open>
  An attribute of a Python object is absent (\<open>Unset\<close>: reading it raises
  \<open>AttributeError\<close>), \<open>None\<close>, or a value.
\<close>

datatype 'a attr = Unset | PyNone | Value 'a

text \<open>
  The class \<open>HMM\<close> is imported from \<open>sktime.markovprocess.bhmm\<close>. The fields are the
  attributes this file reads and writes: \<open>_update_hidden_state_trajectories\<close> assigns
  \<open>hidden_state_trajectories\<close>, and \<open>fit\<close> assigns \<open>hidden_state_trajectory\<close>.
  \<open>'e\<close> is the emission model.
\<close>

record 'e hmm =
  model_nstates :: int
  transition_matrix :: ndarray
  initial_distribution :: ndarray
  output_model :: 'e
  hidden_state_trajectories :: "nat list list option"
  hidden_state_trajectory :: "nat list list attr"

text \<open>
  Modelled from the spec: \<open>Model.copy\<close> of \<open>sktime.base\<close>, which is not among the
  sources. Each snapshot is a deep, independent copy of the model; on immutable values a
  deep copy is the value itself, with every attribute it has.
\<close>

definition copy_model :: "'e hmm \<Rightarrow> 'e hmm" where
  "copy_model m = m"

text \<open>
  Modelled from the spec: \<open>HMM.update(p0, Tij)\<close>, which is not among the sources. The
  transition matrix and the initial distribution are replaced each sweep.
\<close>

definition hmm_update :: "'e hmm \<Rightarrow> ndarray \<Rightarrow> ndarray \<Rightarrow> 'e hmm" where
  "hmm_update m p0 Tij = m\<lparr>initial_distribution := p0, transition_matrix := Tij\<rparr>"

text \<open>\<open>BayesianHMMPosterior\<close>: both attributes are \<open>None\<close> until \<open>fit\<close> assigns them.\<close>

record 'e posterior =
  prior :: "'e hmm option"
  samples :: "'e hmm list option"

section \<open>BayesianHMMSampler: construction\<close>

text \<open>
  A prior argument is \<open>None\<close>, a string, an array or a float. Comparing an array with
  a string (\<^verbatim>\<open>p0_prior == 'sparse'\<close>) is false, as in the numpy releases this code was
  written for.
\<close>

datatype prior_arg = PNone | PStr string | PArray ndarray | PFloat real

text \<open>
  The sampler object. \<open>alpha\<close>, \<open>pobs\<close> and \<open>model\<close> are the attributes \<open>_alpha\<close>,
  \<open>_pobs\<close> and \<open>_model\<close>, and \<open>output_type\<close> is \<open>output\<close>; the first two exist only
  while \<open>fit\<close> has allocated them.
  \<open>prior_C\<close> can be left unassigned by the constructor.
\<close>

record 'e bhmm_sampler =
  reversible :: bool
  stationary :: bool
  nstates :: int
  initial_model :: "'e hmm option"
  prior_n0 :: "ndarray option"
  prior_C :: "ndarray attr"
  transition_matrix_sampling_steps :: int
  nsamples :: int
  output_type :: string
  alpha :: "ndarray attr"
  pobs :: "ndarray attr"
  model :: "'e posterior"

text \<open>
  The collaborators: functions of msmtools and numpy.random, and functions of this
  repository that are not among the sources (\<open>hidden.forward\<close>, \<open>hidden.sample_path\<close>,
  \<open>_tmatrix_disconnected.stationary_distribution\<close>, the methods of \<open>HMM\<close> and of its
  output model, and \<open>MaximumLikelihoodHMM\<close>). Each may raise. Those that draw random
  numbers advance a state \<open>'w\<close>; \<open>'o\<close> is one observation.
\<close>

record ('o, 'e, 'w) collaborators =
  is_connected :: "ndarray \<Rightarrow> error + bool"
  msm_transition_matrix :: "ndarray \<Rightarrow> bool \<Rightarrow> error + ndarray"
  sample_tmatrix :: "ndarray \<Rightarrow> int \<Rightarrow> bool \<Rightarrow> 'w \<Rightarrow> (error + ndarray) \<times> 'w"
  dirichlet :: "real list \<Rightarrow> 'w \<Rightarrow> (error + real list) \<times> 'w"
  stationary_distribution :: "ndarray \<Rightarrow> ndarray \<Rightarrow> error + ndarray"
  p_obs :: "'e \<Rightarrow> 'o list \<Rightarrow> ndarray \<Rightarrow> error + ndarray"
  forward :: "ndarray \<Rightarrow> ndarray \<Rightarrow> ndarray \<Rightarrow> nat \<Rightarrow> ndarray \<Rightarrow> error + ndarray"
  sample_path :: "ndarray \<Rightarrow> ndarray \<Rightarrow> ndarray \<Rightarrow> nat \<Rightarrow> 'w \<Rightarrow> (error + nat list) \<times> 'w"
  collect_observations_in_state :: "'e hmm \<Rightarrow> 'o list list \<Rightarrow> nat \<Rightarrow> error + 'o list list"
  output_sample :: "'e \<Rightarrow> 'o list list list \<Rightarrow> 'w \<Rightarrow> (error + 'e) \<times> 'w"
  hmm_count_matrix :: "'e hmm \<Rightarrow> error + ndarray"
  count_init :: "'e hmm \<Rightarrow> error + ndarray"
  mlhmm :: "int \<Rightarrow> bool \<Rightarrow> string \<Rightarrow> 'o list list \<Rightarrow> error + 'e hmm"

text \<open>Lines 159 to 175: the prior of the initial distribution.\<close>

definition init_prior_n0 :: "int \<Rightarrow> 'e hmm option \<Rightarrow> prior_arg \<Rightarrow> error + ndarray option" where
  "init_prior_n0 n init_model p0_prior =
     (if p0_prior = PNone \<or> p0_prior = PStr ''sparse''
      then map_sum id Some (np_zeros [n])
      else case p0_prior of
        PArray a \<Rightarrow>
          (if length (shape a) = 1 \<and> int (shape a ! 0) = n
           then Inr (Some a)
           else Inl (ValueError ''initial distribution prior must have dimension''))
      | _ \<Rightarrow>
          (if p0_prior = PStr ''mixed''
           then (case init_model of
                   Some m \<Rightarrow> Inr (Some (initial_distribution m))
                 | None \<Rightarrow> Inr None)
           else if p0_prior = PStr ''uniform''
           then map_sum id Some (np_ones [n])
           else Inl (ValueError ''initial distribution prior mode undefined'')))"

text \<open>
  Lines 177 to 191: the prior count matrix. The array branch has no \<open>else\<close>: an array
  of another shape leaves \<open>prior_C\<close> unassigned. The first and the fourth test read
  \<open>p0_prior\<close>.
\<close>

definition init_prior_C ::
  "int \<Rightarrow> 'e hmm option \<Rightarrow> prior_arg \<Rightarrow> prior_arg \<Rightarrow> error + ndarray attr" where
  "init_prior_C n init_model p0_prior transition_matrix_prior =
     (if transition_matrix_prior = PNone \<or> p0_prior = PStr ''sparse''
      then map_sum id Value (np_zeros [n, n])
      else case transition_matrix_prior of
        PArray a \<Rightarrow>
          (if map int (shape a) = [n, n] then Inr (Value a) else Inr Unset)
      | _ \<Rightarrow>
          (if transition_matrix_prior = PStr ''mixed''
           then (case init_model of
                   Some m \<Rightarrow> Inr (Value (transition_matrix m))
                 | None \<Rightarrow> Inr PyNone)
           else if p0_prior = PStr ''uniform''
           then map_sum id Value (np_ones [n, n])
           else Inl (ValueError ''transition matrix prior mode undefined'')))"

text \<open>
  Lines 193 to 198: with \<open>reversible\<close> and an initial model, the sum of its transition
  matrix and the prior counts has to be connected.
\<close>

definition init_check ::
  "('o, 'e, 'w) collaborators \<Rightarrow> bool \<Rightarrow> 'e hmm option \<Rightarrow> ndarray attr \<Rightarrow> error + unit" where
  "init_check env reversible_flag init_model pC =
     (case init_model of
        None \<Rightarrow> Inr ()
      | Some m \<Rightarrow>
          (if reversible_flag then
             (case pC of
                Unset \<Rightarrow> Inl AttributeError
              | PyNone \<Rightarrow> Inl TypeError
              | Value c \<Rightarrow>
                  (case np_add (transition_matrix m) c of
                     Inl e \<Rightarrow> Inl e
                   | Inr X \<Rightarrow>
                       (case is_connected env X of
                          Inl e \<Rightarrow> Inl e
                        | Inr conn \<Rightarrow>
                            (if \<not> conn then Inl NotImplementedError else Inr ()))))
           else Inr ()))"

definition BayesianHMMSampler_init ::
  "('o, 'e, 'w) collaborators \<Rightarrow> int \<Rightarrow> 'e hmm option \<Rightarrow> bool \<Rightarrow> bool \<Rightarrow> int
     \<Rightarrow> prior_arg \<Rightarrow> prior_arg \<Rightarrow> string \<Rightarrow> int \<Rightarrow> error + 'e bhmm_sampler" where
  "BayesianHMMSampler_init env n init_model reversible_flag stationary_flag steps p0_prior
       transition_matrix_prior out ns =
     (let im = map_option copy_model init_model
      in case init_prior_n0 n im p0_prior of
           Inl e \<Rightarrow> Inl e
         | Inr n0 \<Rightarrow>
             (case init_prior_C n im p0_prior transition_matrix_prior of
                Inl e \<Rightarrow> Inl e
              | Inr pC \<Rightarrow>
                  (case init_check env reversible_flag im pC of
                     Inl e \<Rightarrow> Inl e
                   | Inr _ \<Rightarrow>
                       Inr \<lparr>reversible = reversible_flag, stationary = stationary_flag, nstates = n,
                            initial_model = im, prior_n0 = n0, prior_C = pC,
                            transition_matrix_sampling_steps = steps, nsamples = ns,
                            output_type = out, alpha = Unset, pobs = Unset,
                            model = \<lparr>prior = None, samples = None\<rparr>\<rparr>)))"

section \<open>BayesianHMMSampler: programs on the sampler\<close>

text \<open>
  \<open>fit\<close> and the update methods assign attributes of \<open>self\<close> and draw random numbers,
  and an exception leaves the assignments made so far in place. A method is therefore a
  function from the state before to a result, an error or a value, and the state after.
  The state holds \<open>self\<close> and \<open>ext\<close>: the random generator and whatever a callback
  touches.
\<close>

record ('e, 'w) world =
  self :: "'e bhmm_sampler"
  ext :: 'w

type_synonym ('a, 'e, 'w) prog = "('e, 'w) world \<Rightarrow> (error + 'a) \<times> ('e, 'w) world"

definition returns :: "'a \<Rightarrow> ('a, 'e, 'w) prog" where
  "returns x = (\<lambda>s. (Inr x, s))"

definition raises :: "error \<Rightarrow> ('a, 'e, 'w) prog" where
  "raises e = (\<lambda>s. (Inl e, s))"

definition and_then :: "('a, 'e, 'w) prog \<Rightarrow> ('a \<Rightarrow> ('b, 'e, 'w) prog) \<Rightarrow> ('b, 'e, 'w) prog" where
  "and_then m f = (\<lambda>s. case m s of (Inl e, s1) \<Rightarrow> (Inl e, s1) | (Inr x, s1) \<Rightarrow> f x s1)"

text \<open>A call that leaves the state alone; a call that advances \<open>ext\<close>.\<close>

definition pure_call :: "error + 'a \<Rightarrow> ('a, 'e, 'w) prog" where
  "pure_call r = (\<lambda>s. (r, s))"

definition ext_call :: "('w \<Rightarrow> (error + 'a) \<times> 'w) \<Rightarrow> ('a, 'e, 'w) prog" where
  "ext_call g = (\<lambda>s. case g (ext s) of (r, w) \<Rightarrow> (r, s\<lparr>ext := w\<rparr>))"

text \<open>Reading and assigning attributes of \<open>self\<close>; \<open>del self.x\<close>.\<close>

definition reads :: "('e bhmm_sampler \<Rightarrow> 'a) \<Rightarrow> ('a, 'e, 'w) prog" where
  "reads field = (\<lambda>s. (Inr (field (self s)), s))"

definition reads_attr :: "('e bhmm_sampler \<Rightarrow> 'a attr) \<Rightarrow> ('a attr, 'e, 'w) prog" where
  "reads_attr field =
     (\<lambda>s. case field (self s) of Unset \<Rightarrow> (Inl AttributeError, s) | v \<Rightarrow> (Inr v, s))"

definition assigns :: "('e bhmm_sampler \<Rightarrow> 'e bhmm_sampler) \<Rightarrow> (unit, 'e, 'w) prog" where
  "assigns upd = (\<lambda>s. (Inr (), s\<lparr>self := upd (self s)\<rparr>))"

definition del_alpha :: "(unit, 'e, 'w) prog" where
  "del_alpha =
     (\<lambda>s. case alpha (self s) of
             Unset \<Rightarrow> (Inl AttributeError, s)
           | _ \<Rightarrow> (Inr (), s\<lparr>self := (self s)\<lparr>alpha := Unset\<rparr>\<rparr>))"

definition del_pobs :: "(unit, 'e, 'w) prog" where
  "del_pobs =
     (\<lambda>s. case pobs (self s) of
             Unset \<Rightarrow> (Inl AttributeError, s)
           | _ \<Rightarrow> (Inr (), s\<lparr>self := (self s)\<lparr>pobs := Unset\<rparr>\<rparr>))"

text \<open>An array operand that is \<open>None\<close> makes numpy's arithmetic raise \<open>TypeError\<close>.\<close>

definition array_of :: "ndarray attr \<Rightarrow> error + ndarray" where
  "array_of v = (case v of Value a \<Rightarrow> Inr a | PyNone \<Rightarrow> Inl TypeError | Unset \<Rightarrow> Inl AttributeError)"

text \<open>A list comprehension whose element expression is a program.\<close>

fun for_each :: "('a \<Rightarrow> ('b, 'e, 'w) prog) \<Rightarrow> 'a list \<Rightarrow> ('b list, 'e, 'w) prog" where
  "for_each f [] = returns []"
| "for_each f (x # xs) =
     and_then (f x) (\<lambda>y. and_then (for_each f xs) (\<lambda>ys. returns (y # ys)))"

section \<open>BayesianHMMSampler: one Gibbs sweep\<close>

definition sample_hidden_state_trajectory ::
  "('o, 'e, 'w) collaborators \<Rightarrow> 'e hmm \<Rightarrow> 'o list \<Rightarrow> (nat list, 'e, 'w) prog" where
  "sample_hidden_state_trajectory env m obs =
     (let T = length obs; A = transition_matrix m; pi0 = initial_distribution m
      in and_then (reads_attr pobs) (\<lambda>out.
         and_then (pure_call (array_of out)) (\<lambda>out.
         and_then (pure_call (p_obs env (output_model m) obs out)) (\<lambda>B.
         and_then (assigns (\<lambda>slf. slf\<lparr>pobs := Value B\<rparr>)) (\<lambda>_.
         and_then (reads_attr alpha) (\<lambda>a.
         and_then (pure_call (array_of a)) (\<lambda>a.
         and_then (pure_call (forward env A B pi0 T a)) (\<lambda>a1.
         and_then (assigns (\<lambda>slf. slf\<lparr>alpha := Value a1\<rparr>)) (\<lambda>_.
         ext_call (sample_path env a1 A B T))))))))))"

definition update_hidden_state_trajectories ::
  "('o, 'e, 'w) collaborators \<Rightarrow> 'e hmm \<Rightarrow> 'o list list \<Rightarrow> ('e hmm, 'e, 'w) prog" where
  "update_hidden_state_trajectories env m observations =
     and_then (for_each (sample_hidden_state_trajectory env m) observations) (\<lambda>S.
     returns (m\<lparr>hidden_state_trajectories := Some S\<rparr>))"

definition update_emission_probabilities ::
  "('o, 'e, 'w) collaborators \<Rightarrow> 'e hmm \<Rightarrow> 'o list list \<Rightarrow> ('e hmm, 'e, 'w) prog" where
  "update_emission_probabilities env m observations =
     and_then (for_each (\<lambda>state. pure_call (collect_observations_in_state env m observations state))
                 [0..<nat (model_nstates m)]) (\<lambda>observations_by_state.
     and_then (ext_call (output_sample env (output_model m) observations_by_state)) (\<lambda>e.
     returns (m\<lparr>output_model := e\<rparr>)))"

text \<open>
  The initial distribution of \<open>_update_transition_matrix\<close>: the stationary distribution
  of the sampled matrix, or a Dirichlet draw over the positive first-step counts.
\<close>

definition sample_p0 ::
  "('o, 'e, 'w) collaborators \<Rightarrow> 'e hmm \<Rightarrow> ndarray \<Rightarrow> ndarray \<Rightarrow> (ndarray, 'e, 'w) prog" where
  "sample_p0 env m Tij C =
     and_then (reads stationary) (\<lambda>stat.
     if stat then pure_call (stationary_distribution env Tij C)
     else
       and_then (pure_call (count_init env m)) (\<lambda>n0.
       and_then (reads prior_n0) (\<lambda>pn0.
       and_then (pure_call (case pn0 of None \<Rightarrow> Inl TypeError | Some a \<Rightarrow> np_add n0 a))
         (\<lambda>first_timestep_counts_with_prior.
       let positive = map (\<lambda>x. 0 < x) (data first_timestep_counts_with_prior)
       in and_then (ext_call (dirichlet env
                      (filter (\<lambda>x. 0 < x) (data first_timestep_counts_with_prior)))) (\<lambda>vs.
          pure_call (masked_assign n0 (shape first_timestep_counts_with_prior) positive vs))))))"

definition update_transition_matrix ::
  "('o, 'e, 'w) collaborators \<Rightarrow> 'e hmm \<Rightarrow> ('e hmm, 'e, 'w) prog" where
  "update_transition_matrix env m =
     and_then (pure_call (hmm_count_matrix env m)) (\<lambda>counts.
     and_then (reads_attr prior_C) (\<lambda>pC.
     and_then (pure_call (array_of pC)) (\<lambda>pC.
     and_then (pure_call (np_add counts pC)) (\<lambda>C.
     and_then (reads reversible) (\<lambda>rev.
     and_then (if rev
               then and_then (pure_call (is_connected env C)) (\<lambda>conn.
                    if \<not> conn then raises NotImplementedError else returns ())
               else returns ()) (\<lambda>_.
     and_then (pure_call (msm_transition_matrix env C rev)) (\<lambda>P0.
     and_then (pure_call (np_add P0 (np_T P0))) (\<lambda>S.
     and_then (pure_call (zero_where S C)) (\<lambda>C.
     and_then (reads transition_matrix_sampling_steps) (\<lambda>steps.
     and_then (ext_call (sample_tmatrix env C steps rev)) (\<lambda>Tij.
     and_then (sample_p0 env m Tij C) (\<lambda>p0.
     returns (hmm_update m p0 Tij)))))))))))))"

definition update ::
  "('o, 'e, 'w) collaborators \<Rightarrow> 'e hmm \<Rightarrow> 'o list list \<Rightarrow> ('e hmm, 'e, 'w) prog" where
  "update env m observations =
     and_then (update_hidden_state_trajectories env m observations) (\<lambda>m1.
     and_then (update_emission_probabilities env m1 observations) (\<lambda>m2.
     update_transition_matrix env m2))"

section \<open>BayesianHMMSampler: fit\<close>

text \<open>\<^verbatim>\<open>for _ in range(k): self._update(sample_model, observations)\<close>\<close>

fun sweeps ::
  "('o, 'e, 'w) collaborators \<Rightarrow> nat \<Rightarrow> 'o list list \<Rightarrow> 'e hmm \<Rightarrow> ('e hmm, 'e, 'w) prog" where
  "sweeps env 0 observations m = returns m"
| "sweeps env (Suc k) observations m =
     and_then (update env m observations) (\<lambda>m1. sweeps env k observations m1)"

definition invoke_call_back ::
  "('w \<Rightarrow> (error + unit) \<times> 'w) option \<Rightarrow> (unit, 'e, 'w) prog" where
  "invoke_call_back call_back =
     (case call_back of None \<Rightarrow> returns () | Some f \<Rightarrow> ext_call f)"

text \<open>
  The collection loop, \<open>k\<close> samples to go: \<open>nthin\<close> sweeps, a copy of the working
  model with \<open>hidden_state_trajectory\<close> set to \<open>None\<close> unless the trajectories are to
  be saved, and the callback.
\<close>

fun collect ::
  "('o, 'e, 'w) collaborators \<Rightarrow> nat \<Rightarrow> nat \<Rightarrow> bool \<Rightarrow> ('w \<Rightarrow> (error + unit) \<times> 'w) option
     \<Rightarrow> 'o list list \<Rightarrow> 'e hmm \<Rightarrow> 'e hmm list \<Rightarrow> ('e hmm list, 'e, 'w) prog" where
  "collect env 0 nthin save_hidden_state_trajectory call_back observations m models =
     returns models"
| "collect env (Suc k) nthin save_hidden_state_trajectory call_back observations m models =
     and_then (sweeps env nthin observations m) (\<lambda>m1.
     let model_copy = copy_model m1;
         model_copy = (if \<not> save_hidden_state_trajectory
                       then model_copy\<lparr>hidden_state_trajectory := PyNone\<rparr>
                       else model_copy)
     in and_then (invoke_call_back call_back) (\<lambda>_.
        collect env k nthin save_hidden_state_trajectory call_back observations m1
          (models @ [model_copy])))"

text \<open>Lines 257 to 263: without an initial model, one is estimated and seeds the priors
  that are still \<open>None\<close>.\<close>

definition generate_initial_model ::
  "('o, 'e, 'w) collaborators \<Rightarrow> 'o list list \<Rightarrow> ('e hmm, 'e, 'w) prog" where
  "generate_initial_model env observations =
     and_then (reads initial_model) (\<lambda>im.
     case im of
       Some m \<Rightarrow> returns m
     | None \<Rightarrow>
         and_then (reads nstates) (\<lambda>n.
         and_then (reads reversible) (\<lambda>rev.
         and_then (reads output_type) (\<lambda>out.
         and_then (pure_call (mlhmm env n rev out observations)) (\<lambda>g.
         and_then (assigns (\<lambda>slf. slf\<lparr>initial_model := Some g\<rparr>)) (\<lambda>_.
         and_then (reads prior_n0) (\<lambda>pn0.
         and_then (if pn0 = None
                   then assigns (\<lambda>slf. slf\<lparr>prior_n0 := Some (initial_distribution g)\<rparr>)
                   else returns ()) (\<lambda>_.
         and_then (reads_attr prior_C) (\<lambda>pC.
         and_then (if pC = PyNone
                   then assigns (\<lambda>slf. slf\<lparr>prior_C := Value (transition_matrix g)\<rparr>)
                   else returns ()) (\<lambda>_.
         returns g))))))))))"

definition fit ::
  "('o, 'e, 'w) collaborators \<Rightarrow> 'o list list \<Rightarrow> int \<Rightarrow> int \<Rightarrow> bool
     \<Rightarrow> ('w \<Rightarrow> (error + unit) \<times> 'w) option \<Rightarrow> (unit, 'e, 'w) prog" where
  "fit env observations nburn nthin save_hidden_state_trajectory call_back =
     (if length observations = 0 then raises (ValueError ''No observations were provided.'')
      else
        let maxT = fold max (map length observations) 0
        in and_then (reads nstates) (\<lambda>n.
           and_then (pure_call (np_zeros [int maxT, n])) (\<lambda>a.
           and_then (assigns (\<lambda>slf. slf\<lparr>alpha := Value a\<rparr>)) (\<lambda>_.
           and_then (pure_call (np_zeros [int maxT, n])) (\<lambda>b.
           and_then (assigns (\<lambda>slf. slf\<lparr>pobs := Value b\<rparr>)) (\<lambda>_.
           and_then (generate_initial_model env observations) (\<lambda>im.
           let prior_model = copy_model im;
               sample_model = copy_model prior_model
           in and_then (sweeps env (nat nburn) observations sample_model) (\<lambda>m.
              and_then (reads nsamples) (\<lambda>ns.
              and_then (collect env (nat ns) (nat nthin) save_hidden_state_trajectory
                          call_back observations m []) (\<lambda>models.
              and_then (assigns (\<lambda>slf. slf\<lparr>model := (model slf)\<lparr>samples := Some models\<rparr>\<rparr>)) (\<lambda>_.
              and_then (assigns (\<lambda>slf. slf\<lparr>model := (model slf)\<lparr>prior := Some prior_model\<rparr>\<rparr>)) (\<lambda>_.
              and_then del_alpha (\<lambda>_. del_pobs)))))))))))))"

section \<open>What a sweep leaves alone\<close>

text \<open>
  The update methods assign only \<open>_alpha\<close> and \<open>_pobs\<close>, and they assign arrays.
  \<open>keeps_config p\<close> says that the program \<open>p\<close>, whether it returns or raises,
  leaves every other attribute of \<open>self\<close> as it was and removes no buffer that exists.
\<close>

definition without_buffers :: "'e bhmm_sampler \<Rightarrow> 'e bhmm_sampler" where
  "without_buffers slf = slf\<lparr>alpha := Unset, pobs := Unset\<rparr>"

definition allocated :: "'e bhmm_sampler \<Rightarrow> bool" where
  "allocated slf = (alpha slf \<noteq> Unset \<and> pobs slf \<noteq> Unset)"

definition keeps_config :: "('a, 'e, 'w) prog \<Rightarrow> bool" where
  "keeps_config p =
     (\<forall>s. without_buffers (self (snd (p s))) = without_buffers (self s)
        \<and> (allocated (self s) \<longrightarrow> allocated (self (snd (p s)))))"

text \<open>
  \<open>keeps_allocated p\<close>: buffers that exist before \<open>p\<close> exist after it.
  \<open>raises_allocated p\<close>: when \<open>p\<close> starts with both buffers and raises, both
  buffers exist in the state it leaves.
\<close>

definition keeps_allocated :: "('a, 'e, 'w) prog \<Rightarrow> bool" where
  "keeps_allocated p = (\<forall>s. allocated (self s) \<longrightarrow> allocated (self (snd (p s))))"

definition raises_allocated :: "('a, 'e, 'w) prog \<Rightarrow> bool" where
  "raises_allocated p =
     (\<forall>s e s1. allocated (self s) \<and> p s = (Inl e, s1) \<longrightarrow> allocated (self s1))"

section \<open>Example inputs\<close>

text \<open>A four-state count matrix, a fixed stationary vector, and a collaborator whose
  draws depend on the state they advance.\<close>

definition example_counts :: ndarray where
  "example_counts = \<lparr>shape = [4, 4], data = [5, 1, 0, 0, 1, 5, 1, 0, 0, 1, 5, 1, 0, 0, 1, 5]\<rparr>"

definition example_mu :: ndarray where
  "example_mu = \<lparr>shape = [4], data = [1/4, 1/4, 1/4, 1/4]\<rparr>"




text \<open>
  A two-state model and stand-ins for the collaborators. Connectivity is strong
  connectivity of the graph of non-zero entries; the counts are taken from the hidden
  trajectories; the random draws are replaced by fixed values (the sampled path stays in
  state 0, the sampled matrix is uniform, the Dirichlet draw is its mean) and advance a
  counter.
\<close>

definition example_T :: ndarray where
  "example_T = \<lparr>shape = [2, 2], data = [1/2, 1/2, 1/2, 1/2]\<rparr>"

definition example_p0 :: ndarray where
  "example_p0 = \<lparr>shape = [2], data = [1/2, 1/2]\<rparr>"

definition example_model :: "(real list) hmm" where
  "example_model =
     \<lparr>model_nstates = 2, transition_matrix = example_T, initial_distribution = example_p0,
      output_model = [0, 1], hidden_state_trajectories = None,
      hidden_state_trajectory = Unset\<rparr>"

definition successors :: "ndarray \<Rightarrow> nat \<Rightarrow> nat list" where
  "successors C i =
     (case shape C of [r, c] \<Rightarrow> filter (\<lambda>j. data C ! (i * c + j) \<noteq> 0) [0..<c] | _ \<Rightarrow> [])"

definition reachable :: "ndarray \<Rightarrow> nat \<Rightarrow> nat list" where
  "reachable C i =
     ((\<lambda>S. remdups (S @ concat (map (successors C) S))) ^^ hd (shape C)) [i]"

definition strongly_connected :: "ndarray \<Rightarrow> bool" where
  "strongly_connected C =
     (case shape C of
        [r, c] \<Rightarrow> list_all (\<lambda>i. list_all (\<lambda>j. j \<in> set (reachable C i)) [0..<r]) [0..<r]
      | _ \<Rightarrow> False)"

definition count_transitions :: "nat \<Rightarrow> nat list list \<Rightarrow> ndarray" where
  "count_transitions n S =
     \<lparr>shape = [n, n],
      data = map (\<lambda>k. real (length (filter (\<lambda>(i, j). i * n + j = k)
                                 (concat (map (\<lambda>path. zip path (tl path)) S)))))
               [0..<n * n]\<rparr>"

definition count_first :: "nat \<Rightarrow> nat list list \<Rightarrow> ndarray" where
  "count_first n S =
     \<lparr>shape = [n],
      data = map (\<lambda>i. real (length (filter (\<lambda>path. take 1 path = [i]) S))) [0..<n]\<rparr>"

definition example_env :: "(real, real list, nat) collaborators" where
  "example_env =
     \<lparr>is_connected = (\<lambda>C. Inr (strongly_connected C)),
      msm_transition_matrix = (\<lambda>C rvs. Inr C),
      sample_tmatrix = (\<lambda>C steps rvs w.
        (Inr \<lparr>shape = shape C, data = map (\<lambda>x. 1 / real (hd (shape C))) (data C)\<rparr>, Suc w)),
      dirichlet = (\<lambda>as w. (Inr (map (\<lambda>a. a / sum_list as) as), Suc w)),
      stationary_distribution = (\<lambda>P C.
        Inr \<lparr>shape = [hd (shape P)],
             data = replicate (hd (shape P)) (1 / real (hd (shape P)))\<rparr>),
      p_obs = (\<lambda>e obs out. Inr out),
      forward = (\<lambda>A B p T a. Inr a),
      sample_path = (\<lambda>a A B T w. (Inr (replicate T 0), Suc w)),
      collect_observations_in_state = (\<lambda>m observations state.
        case hidden_state_trajectories m of
          None \<Rightarrow> Inl TypeError
        | Some S \<Rightarrow>
            Inr (map2 (\<lambda>obs path. map fst (filter (\<lambda>(x, q). q = state) (zip obs path)))
                   observations S)),
      output_sample = (\<lambda>e observations_by_state w. (Inr e, w)),
      hmm_count_matrix = (\<lambda>m.
        case hidden_state_trajectories m of
          None \<Rightarrow> Inl TypeError
        | Some S \<Rightarrow> Inr (count_transitions (nat (model_nstates m)) S)),
      count_init = (\<lambda>m.
        case hidden_state_trajectories m of
          None \<Rightarrow> Inl TypeError
        | Some S \<Rightarrow> Inr (count_first (nat (model_nstates m)) S)),
      mlhmm = (\<lambda>n rvs out observations. Inr example_model)\<rparr>"

text \<open>
  Two samplers on the example model, as the constructor returns them: one with the
  default \<open>'mixed'\<close> priors and one with both priors \<open>None\<close>.
\<close>

definition example_sampler :: "(real list) bhmm_sampler" where
  "example_sampler =
     \<lparr>reversible = True, stationary = False, nstates = 2,
      initial_model = Some example_model, prior_n0 = Some example_p0,
      prior_C = Value example_T, transition_matrix_sampling_steps = 1000, nsamples = 1,
      output_type = ''gaussian'', alpha = Unset, pobs = Unset,
      model = \<lparr>prior = None, samples = None\<rparr>\<rparr>"

definition example_sampler_no_prior :: "(real list) bhmm_sampler" where
  "example_sampler_no_prior =
     example_sampler\<lparr>prior_n0 := Some \<lparr>shape = [2], data = [0, 0]\<rparr>,
                     prior_C := Value \<lparr>shape = [2, 2], data = [0, 0, 0, 0]\<rparr>\<rparr>"



section \<open>Array addition on equal shapes\<close>

text \<open>
  On two well-formed arrays of one shape, broadcasting addition is entry-wise addition.
\<close>

lemma ravel_unravel: "k < prod_list ds \<Longrightarrow> ravel ds (unravel ds k) = k"
proof (induction ds arbitrary: k)
  case Nil
  then show ?case by simp
next
  case (Cons d ds)
  then have pos: "0 < prod_list ds"
    by (cases "prod_list ds = 0") auto
  then have "k mod prod_list ds < prod_list ds"
    by simp
  from Cons.IH [OF this] show ?case
    by simp
qed

lemma unravel_unit_axes:
  "k < prod_list ds \<Longrightarrow>
   map2 (\<lambda>d i. if d = 1 then 0 else i) ds (unravel ds k) = unravel ds k"
proof (induction ds arbitrary: k)
  case Nil
  then show ?case by simp
next
  case (Cons d ds)
  then have pos: "0 < prod_list ds"
    by (cases "prod_list ds = 0") auto
  then have "k mod prod_list ds < prod_list ds"
    by simp
  from Cons.IH [OF this] Cons.prems show ?case
    by auto
qed

lemma broadcast_rev_same: "broadcast_rev xs xs = Some xs"
  by (induction xs) auto

lemma broadcast_entry_same:
  assumes "k < prod_list (shape a)"
  shows "broadcast_entry a (shape a) k = data a ! k"
proof -
  have "pad_shape (length (shape a)) (shape a) = shape a"
    by (simp add: pad_shape_def)
  then show ?thesis
    unfolding broadcast_entry_def Let_def
    by (simp only: unravel_unit_axes [OF assms] ravel_unravel [OF assms])
qed

lemma np_add_same_shape:
  assumes "shape b = shape a" and "length (data a) = prod_list (shape a)"
    and "length (data b) = prod_list (shape a)"
  shows "np_add a b = Inr \<lparr>shape = shape a, data = map2 (+) (data a) (data b)\<rparr>"
proof -
  have "map (\<lambda>k. broadcast_entry a (shape a) k + broadcast_entry b (shape a) k)
          [0..<prod_list (shape a)] = map2 (+) (data a) (data b)"
    using assms broadcast_entry_same [of _ a] broadcast_entry_same [of _ b]
    by (intro nth_equalityI) simp_all
  then show ?thesis
    using assms(1) by (simp add: np_add_def broadcast_rev_same)
qed

section \<open>TransitionMatrixSampler: construction\<close>

text \<open>
  C6. In non-reversible mode (\<open>reversible=False\<close>, no fixed stationary vector) the
  Dirichlet-based sampler is constructed on the count matrix with 1 subtracted from every
  entry, and \<open>n_steps\<close> is 1 whatever the caller passed.
\<close>

theorem nonreversible_sampler_on_counts_minus_one:
  "TransitionMatrixSampler_init cm False None P0 n_steps_arg ''sparse'' =
     Inr \<lparr>count_matrix = cm, sampler = SamplerNonRev (np_sub_scalar cm 1), n_steps = 1\<rparr>
   \<and> shape (np_sub_scalar cm 1) = shape cm
   \<and> data (np_sub_scalar cm 1) = map (\<lambda>x. x - 1) (data cm)"
  by (simp add: TransitionMatrixSampler_init_def np_sub_scalar_def)

text \<open>
  C7, as the code has it. The square-root and the 6 are what \<open>n_steps\<close> becomes when the
  caller passes \<open>None\<close>; a caller who leaves \<open>n_steps\<close> out gets the signature's
  default 1 in both reversible modes.
\<close>

theorem n_steps_when_None:
  assumes "shape cm = n # ds"
  shows "TransitionMatrixSampler_init cm True None P0 None ''sparse'' =
           Inr \<lparr>count_matrix = cm, sampler = SamplerRev cm P0, n_steps = sqrt (real n)\<rparr>
       \<and> TransitionMatrixSampler_init cm True (Some mu) P0 None ''sparse'' =
           Inr \<lparr>count_matrix = cm, sampler = SamplerRevPi cm mu P0, n_steps = 6\<rparr>
       \<and> TransitionMatrixSampler_init cm True None P0 n_steps_default ''sparse'' =
           Inr \<lparr>count_matrix = cm, sampler = SamplerRev cm P0, n_steps = 1\<rparr>
       \<and> TransitionMatrixSampler_init cm True (Some mu) P0 n_steps_default ''sparse'' =
           Inr \<lparr>count_matrix = cm, sampler = SamplerRevPi cm mu P0, n_steps = 1\<rparr>"
  using assms by (simp add: TransitionMatrixSampler_init_def n_steps_default_def)

theorem n_steps_when_None_witness:
  "shape example_counts = 4 # [4]
   \<and> TransitionMatrixSampler_init example_counts True None None None ''sparse'' =
       Inr \<lparr>count_matrix = example_counts, sampler = SamplerRev example_counts None, n_steps = 2\<rparr>
   \<and> TransitionMatrixSampler_init example_counts True (Some example_mu) None None ''sparse'' =
       Inr \<lparr>count_matrix = example_counts,
            sampler = SamplerRevPi example_counts example_mu None, n_steps = 6\<rparr>"
proof -
  have h: "shape example_counts = 4 # [4]"
    by (simp add: example_counts_def)
  have "sqrt (real 4) = 2"
    by simp
  with n_steps_when_None [OF h, of None example_mu] h show ?thesis
    by simp
qed

text \<open>
  C7 as stated fails: constructed in reversible mode on four states with \<open>n_steps\<close>
  left out, the sampler runs 1 inner sweep per sample, neither \<open>sqrt 4 = 2\<close> nor,
  with a fixed stationary vector, 6.
\<close>

theorem n_steps_unspecified_counterexample:
  "TransitionMatrixSampler_init example_counts True None None n_steps_default ''sparse'' =
     Inr \<lparr>count_matrix = example_counts, sampler = SamplerRev example_counts None, n_steps = 1\<rparr>
   \<and> sqrt (real (hd (shape example_counts))) = 2
   \<and> TransitionMatrixSampler_init example_counts True (Some example_mu) None n_steps_default
       ''sparse'' =
     Inr \<lparr>count_matrix = example_counts,
          sampler = SamplerRevPi example_counts example_mu None, n_steps = 1\<rparr>"
  by (simp add: TransitionMatrixSampler_init_def n_steps_default_def example_counts_def)

section \<open>TransitionMatrixSampler: batches\<close>
















section \<open>BayesianHMMSampler: the constructor's priors\<close>

lemma np_zeros_nonneg:
  "list_all (\<lambda>d. 0 \<le> d) dims \<Longrightarrow>
   np_zeros dims = Inr \<lparr>shape = map nat dims, data = replicate (prod_list (map nat dims)) 0\<rparr>"
  by (auto simp: np_zeros_def np_full_def list_ex_iff list_all_iff)

lemma init_check_off:
  "init_check env rv None pC = Inr ()" "init_check env False im pC = Inr ()"
  by (simp_all add: init_check_def split: option.splits)

lemma example_sampler_constructed:
  "BayesianHMMSampler_init example_env 2 (Some example_model) True False 1000
     (PStr ''mixed'') (PStr ''mixed'') ''gaussian'' 1 = Inr example_sampler"
  by code_simp

lemma example_sampler_no_prior_constructed:
  "BayesianHMMSampler_init example_env 2 (Some example_model) True False 1000
     PNone PNone ''gaussian'' 1 = Inr example_sampler_no_prior"
  by code_simp

text \<open>
  C2 fails on the code. The docstring promises \<open>b_ij = 1\<close> for
  \<open>transition_matrix_prior='uniform'\<close>, but the branch that builds the all-ones matrix
  tests \<open>p0_prior == 'uniform'\<close>. With \<open>p0_prior\<close> left at its default \<open>'mixed'\<close>,
  the constructor raises \<open>ValueError\<close>, for every \<open>nstates\<close> and every other argument.
\<close>

theorem uniform_transition_prior_rejected:
  "BayesianHMMSampler_init env n im rv st steps (PStr ''mixed'') (PStr ''uniform'') out ns =
     Inl (ValueError ''transition matrix prior mode undefined'')"
  by (simp add: BayesianHMMSampler_init_def init_prior_n0_def init_prior_C_def
      split: option.splits)

text \<open>
  The first half of C4 holds: a \<open>p0_prior\<close> array that is not a vector of length
  \<open>nstates\<close> is rejected with \<open>ValueError\<close>.
\<close>

lemma wrong_shape_p0_prior_rejected:
  "shape a \<noteq> [nat n] \<or> n < 0 \<Longrightarrow>
   BayesianHMMSampler_init env n im rv st steps (PArray a) tmp out ns =
     Inl (ValueError ''initial distribution prior must have dimension'')"
  by (cases "shape a"; cases "tl (shape a)")
     (auto simp: BayesianHMMSampler_init_def init_prior_n0_def)

text \<open>
  C4 fails on the code for \<open>transition_matrix_prior\<close>. The array branch has the shape
  test of the \<open>p0_prior\<close> branch but not its \<open>else: raise ValueError\<close>. Constructing a
  two-state sampler with a 3-by-3 prior array and every other argument at its default
  returns a sampler whose \<open>prior_C\<close> was never assigned; the error surfaces in \<open>fit\<close>,
  as an \<open>AttributeError\<close>, after the buffers are allocated and the initial model is
  estimated.
\<close>

theorem wrong_shape_transition_prior_accepted:
  "BayesianHMMSampler_init example_env 2 None True False 1000 (PStr ''mixed'')
       (PArray \<lparr>shape = [3, 3], data = [1, 1, 1, 1, 1, 1, 1, 1, 1]\<rparr>) ''gaussian'' 100 =
     Inr \<lparr>reversible = True, stationary = False, nstates = 2, initial_model = None,
          prior_n0 = None, prior_C = Unset, transition_matrix_sampling_steps = 1000,
          nsamples = 100, output_type = ''gaussian'', alpha = Unset, pobs = Unset,
          model = \<lparr>prior = None, samples = None\<rparr>\<rparr>
   \<and> fit example_env [[0, 1]] 0 1 False None
       \<lparr>self = \<lparr>reversible = True, stationary = False, nstates = 2, initial_model = None,
          prior_n0 = None, prior_C = Unset, transition_matrix_sampling_steps = 1000,
          nsamples = 100, output_type = ''gaussian'', alpha = Unset, pobs = Unset,
          model = \<lparr>prior = None, samples = None\<rparr>\<rparr>, ext = 0\<rparr> =
     (Inl AttributeError,
      \<lparr>self = \<lparr>reversible = True, stationary = False, nstates = 2,
          initial_model = Some example_model, prior_n0 = Some example_p0, prior_C = Unset,
          transition_matrix_sampling_steps = 1000, nsamples = 100,
          output_type = ''gaussian'',
          alpha = Value \<lparr>shape = [2, 2], data = [0, 0, 0, 0]\<rparr>,
          pobs = Value \<lparr>shape = [2, 2], data = [0, 0, 0, 0]\<rparr>,
          model = \<lparr>prior = None, samples = None\<rparr>\<rparr>, ext = 0\<rparr>)"
  by code_simp

text \<open>
  C10. \<open>p0_prior='sparse'\<close> is an accepted mode: it gives the zero vector, as
  \<open>p0_prior=None\<close> does, and the zero matrix for \<open>prior_C\<close> whatever
  \<open>transition_matrix_prior\<close> is. The only error construction can then end in is the one
  of the connectivity check, which is skipped without an initial model and without
  \<open>reversible\<close>.
\<close>

theorem sparse_p0_prior_zeroes_both_priors:
  assumes "0 \<le> n"
  shows "init_prior_n0 n im (PStr ''sparse'') = init_prior_n0 n im PNone
       \<and> BayesianHMMSampler_init env n im rv st steps (PStr ''sparse'') tmp out ns =
           (case init_check env rv (map_option copy_model im)
                   (Value \<lparr>shape = [nat n, nat n], data = replicate (nat n * nat n) 0\<rparr>) of
              Inl e \<Rightarrow> Inl e
            | Inr _ \<Rightarrow>
                Inr \<lparr>reversible = rv, stationary = st, nstates = n,
                     initial_model = map_option copy_model im,
                     prior_n0 = Some \<lparr>shape = [nat n], data = replicate (nat n) 0\<rparr>,
                     prior_C = Value \<lparr>shape = [nat n, nat n],
                                      data = replicate (nat n * nat n) 0\<rparr>,
                     transition_matrix_sampling_steps = steps, nsamples = ns,
                     output_type = out, alpha = Unset, pobs = Unset,
                     model = \<lparr>prior = None, samples = None\<rparr>\<rparr>)
       \<and> init_check env rv None pC = Inr ()
       \<and> init_check env False im1 pC = Inr ()"
  using assms
  by (simp add: BayesianHMMSampler_init_def init_prior_n0_def init_prior_C_def
      np_zeros_nonneg init_check_off Let_def)

theorem sparse_p0_prior_witness:
  "(0::int) \<le> 2
   \<and> BayesianHMMSampler_init example_env 2 None True False 1000 (PStr ''sparse'')
       (PStr ''uniform'') ''gaussian'' 100 =
     Inr \<lparr>reversible = True, stationary = False, nstates = 2, initial_model = None,
          prior_n0 = Some \<lparr>shape = [2], data = [0, 0]\<rparr>,
          prior_C = Value \<lparr>shape = [2, 2], data = [0, 0, 0, 0]\<rparr>,
          transition_matrix_sampling_steps = 1000, nsamples = 100,
          output_type = ''gaussian'', alpha = Unset, pobs = Unset,
          model = \<lparr>prior = None, samples = None\<rparr>\<rparr>"
proof -
  have h: "(0::int) \<le> 2"
    by simp
  from sparse_p0_prior_zeroes_both_priors [OF h, of None example_env True False 1000
      "PStr ''uniform''" "''gaussian''" 100]
  show ?thesis
    by (simp add: init_check_off eval_nat_numeral)
qed

section \<open>Programs: how results arise\<close>

lemma and_then_InrE:
  assumes "and_then m f s = (Inr y, s')"
  obtains x s1 where "m s = (Inr x, s1)" and "f x s1 = (Inr y, s')"
  using assms by (auto simp: and_then_def split: prod.splits sum.splits)

lemma and_then_Inl: "m s = (Inl e, s1) \<Longrightarrow> and_then m f s = (Inl e, s1)"
  by (simp add: and_then_def)

lemma and_then_Inr: "m s = (Inr x, s1) \<Longrightarrow> and_then m f s = f x s1"
  by (simp add: and_then_def)





lemma del_both_released:
  "and_then del_alpha (\<lambda>_. del_pobs) s = (Inr y, s') \<Longrightarrow>
   alpha (self s') = Unset \<and> pobs (self s') = Unset"
  by (auto simp: and_then_def del_alpha_def del_pobs_def split: attr.splits)

lemma del_alpha_InrD: "del_alpha s = (Inr x, s1) \<Longrightarrow> s1 = s\<lparr>self := (self s)\<lparr>alpha := Unset\<rparr>\<rparr>"
  by (auto simp: del_alpha_def split: attr.splits)

lemma del_pobs_InrD: "del_pobs s = (Inr x, s1) \<Longrightarrow> s1 = s\<lparr>self := (self s)\<lparr>pobs := Unset\<rparr>\<rparr>"
  by (auto simp: del_pobs_def split: attr.splits)


lemma returns_InrD: "returns x s = (Inr y, s1) \<Longrightarrow> y = x \<and> s1 = s"
  by (auto simp: returns_def)


lemma assigns_InrD: "assigns upd s = (Inr x, s1) \<Longrightarrow> s1 = s\<lparr>self := upd (self s)\<rparr>"
  by (auto simp: assigns_def)

section \<open>BayesianHMMSampler: the connectivity check\<close>




text \<open>The example runs, evaluated.\<close>

lemma example_fit_run:
  "fit example_env [[0, 1]] 0 1 False None \<lparr>self = example_sampler, ext = 0\<rparr> =
     (Inr (),
      \<lparr>self = example_sampler
          \<lparr>model := \<lparr>prior = Some example_model, samples = Some [example_model
             \<lparr>initial_distribution := \<lparr>shape = [2], data = [3/4, 1/4]\<rparr>,
              hidden_state_trajectories := Some [[0, 0]],
              hidden_state_trajectory := PyNone\<rparr>]\<rparr>\<rparr>,
       ext = 3\<rparr>)"
  by code_simp

lemma example_fit_raises:
  "fit example_env [[0, 1]] 0 1 False None \<lparr>self = example_sampler_no_prior, ext = 0\<rparr> =
     (Inl NotImplementedError,
      \<lparr>self = example_sampler_no_prior
          \<lparr>alpha := Value \<lparr>shape = [2, 2], data = [0, 0, 0, 0]\<rparr>,
           pobs := Value \<lparr>shape = [2, 2], data = [0, 0, 0, 0]\<rparr>\<rparr>,
       ext = 1\<rparr>)"
  by code_simp




section \<open>BayesianHMMSampler: what fit leaves behind\<close>

lemma keeps_configD:
  "keeps_config p \<Longrightarrow> p s = (r, s') \<Longrightarrow> without_buffers (self s') = without_buffers (self s)"
  by (auto simp: keeps_config_def dest: spec [of _ s])

lemma keeps_allocatedD:
  "keeps_config p \<Longrightarrow> p s = (r, s') \<Longrightarrow> allocated (self s) \<Longrightarrow> allocated (self s')"
  by (auto simp: keeps_config_def dest: spec [of _ s])

lemma without_buffers_eqD:
  assumes "without_buffers a = without_buffers b"
  shows "nsamples a = nsamples b" and "initial_model a = initial_model b"
    and "model a = model b" and "reversible a = reversible b" and "prior_C a = prior_C b"
    and "transition_matrix_sampling_steps a = transition_matrix_sampling_steps b"
proof -
  have "nsamples (without_buffers a) = nsamples (without_buffers b)"
    "initial_model (without_buffers a) = initial_model (without_buffers b)"
    "model (without_buffers a) = model (without_buffers b)"
    "reversible (without_buffers a) = reversible (without_buffers b)"
    "prior_C (without_buffers a) = prior_C (without_buffers b)"
    "transition_matrix_sampling_steps (without_buffers a)
       = transition_matrix_sampling_steps (without_buffers b)"
    using assms by simp_all
  then show "nsamples a = nsamples b" and "initial_model a = initial_model b"
    and "model a = model b" and "reversible a = reversible b" and "prior_C a = prior_C b"
    and "transition_matrix_sampling_steps a = transition_matrix_sampling_steps b"
    by (simp_all add: without_buffers_def)
qed

lemma keeps_basic:
  "keeps_config (returns x)" "keeps_config (raises e)" "keeps_config (pure_call r)"
  "keeps_config (ext_call g)" "keeps_config (reads field)" "keeps_config (reads_attr fa)"
  "keeps_config (assigns (\<lambda>slf. slf\<lparr>alpha := Value va\<rparr>))"
  "keeps_config (assigns (\<lambda>slf. slf\<lparr>pobs := Value vb\<rparr>))"
  by (auto simp: keeps_config_def returns_def raises_def pure_call_def ext_call_def reads_def
      reads_attr_def assigns_def without_buffers_def allocated_def
      split: prod.splits attr.splits)

lemma keeps_and_then:
  "keeps_config m \<Longrightarrow> (\<And>x. keeps_config (f x)) \<Longrightarrow> keeps_config (and_then m f)"
  unfolding keeps_config_def and_then_def
  by (auto split: prod.splits sum.splits) (metis snd_conv)+

lemma keeps_if:
  "keeps_config p \<Longrightarrow> keeps_config q \<Longrightarrow> keeps_config (if b then p else q)"
  by simp

lemma keeps_for_each: "(\<And>x. keeps_config (f x)) \<Longrightarrow> keeps_config (for_each f xs)"
  by (induction xs) (auto intro!: keeps_and_then keeps_basic)

lemma keeps_sample_hidden_state_trajectory:
  "keeps_config (sample_hidden_state_trajectory env m obs)"
  unfolding sample_hidden_state_trajectory_def Let_def
  by (intro keeps_and_then keeps_basic)

lemma keeps_update_hidden_state_trajectories:
  "keeps_config (update_hidden_state_trajectories env m observations)"
  unfolding update_hidden_state_trajectories_def
  by (intro keeps_and_then keeps_basic keeps_for_each keeps_sample_hidden_state_trajectory)

lemma keeps_update_emission_probabilities:
  "keeps_config (update_emission_probabilities env m observations)"
  unfolding update_emission_probabilities_def
  by (intro keeps_and_then keeps_basic keeps_for_each)

lemma keeps_sample_p0: "keeps_config (sample_p0 env m Tij C)"
  unfolding sample_p0_def Let_def
  by (intro keeps_and_then keeps_basic keeps_if)

lemma keeps_update_transition_matrix: "keeps_config (update_transition_matrix env m)"
  unfolding update_transition_matrix_def
  by (intro keeps_and_then keeps_basic keeps_if keeps_sample_p0)

lemma keeps_update: "keeps_config (update env m observations)"
  unfolding update_def
  by (intro keeps_and_then keeps_update_hidden_state_trajectories
      keeps_update_emission_probabilities keeps_update_transition_matrix)

lemma keeps_sweeps: "keeps_config (sweeps env k observations m)"
  by (induction k arbitrary: m) (auto intro!: keeps_and_then keeps_basic keeps_update)

lemma keeps_invoke_call_back: "keeps_config (invoke_call_back cb)"
  by (cases cb) (auto simp: invoke_call_back_def intro: keeps_basic)

lemma keeps_collect: "keeps_config (collect env k nthin save cb observations m models)"
  by (induction k arbitrary: m models)
     (auto simp: Let_def intro!: keeps_and_then keeps_basic keeps_sweeps keeps_invoke_call_back)

lemma collect_length:
  "collect env k nthin save cb observations m models s = (Inr ms, s') \<Longrightarrow>
   length ms = length models + k"
proof (induction k arbitrary: m models s)
  case 0
  then show ?case by (simp add: returns_def)
next
  case (Suc k)
  from Suc.prems obtain m1 s2 mc where
    "collect env k nthin save cb observations m1 (models @ [mc]) s2 = (Inr ms, s')"
    by (simp add: Let_def) (elim and_then_InrE, blast)
  from Suc.IH [OF this] show ?case by simp
qed


lemma generate_initial_model_result:
  assumes "generate_initial_model env observations s = (Inr im, s1)"
  shows "initial_model (self s1) = Some im"
    and "nsamples (self s1) = nsamples (self s)"
    and "Inr im = (case initial_model (self s) of
                     Some m \<Rightarrow> Inr m
                   | None \<Rightarrow> mlhmm env (nstates (self s)) (reversible (self s))
                               (output_type (self s)) observations)"
proof -
  have "initial_model (self s1) = Some im \<and> nsamples (self s1) = nsamples (self s)
      \<and> Inr im = (case initial_model (self s) of
                     Some m \<Rightarrow> Inr m
                   | None \<Rightarrow> mlhmm env (nstates (self s)) (reversible (self s))
                               (output_type (self s)) observations)"
  proof (cases "initial_model (self s)")
    case (Some m)
    with assms show ?thesis
      by (simp add: generate_initial_model_def and_then_def reads_def returns_def)
  next
    case None
    with assms show ?thesis
      unfolding generate_initial_model_def
      by (auto simp: and_then_def reads_def reads_attr_def returns_def pure_call_def
          assigns_def split: sum.splits attr.splits if_splits)
  qed
  then show "initial_model (self s1) = Some im"
    and "nsamples (self s1) = nsamples (self s)"
    and "Inr im = (case initial_model (self s) of
                     Some m \<Rightarrow> Inr m
                   | None \<Rightarrow> mlhmm env (nstates (self s)) (reversible (self s))
                               (output_type (self s)) observations)"
    by simp_all
qed


lemma fit_returns_released:
  assumes "fit env observations nburn nthin save cb s = (Inr (), s')"
  shows "alpha (self s') = Unset \<and> pobs (self s') = Unset"
proof -
  have ne: "length observations \<noteq> 0"
    using assms by (auto simp: fit_def raises_def)
  from assms ne obtain x sa sb where "del_alpha sa = (Inr x, sb)" and "del_pobs sb = (Inr (), s')"
    unfolding fit_def Let_def
    by (simp only: if_False) (elim and_then_InrE, blast)
  then show ?thesis
    by (auto dest!: del_alpha_InrD del_pobs_InrD)
qed

lemma keeps_config_allocated: "keeps_config p \<Longrightarrow> keeps_allocated p"
  by (simp add: keeps_config_def keeps_allocated_def)

lemma raises_allocated_and_then:
  "keeps_allocated m \<Longrightarrow> (\<And>x. raises_allocated (f x)) \<Longrightarrow> raises_allocated (and_then m f)"
  unfolding keeps_allocated_def raises_allocated_def and_then_def
  by (auto split: prod.splits sum.splits)

lemma keeps_allocated_generate_initial_model:
  "keeps_allocated (generate_initial_model env observations)"
  unfolding keeps_allocated_def generate_initial_model_def
  by (auto simp: and_then_def reads_def reads_attr_def returns_def pure_call_def
      assigns_def allocated_def split: sum.splits attr.splits option.splits)

lemma keeps_allocated_assigns_model:
  "keeps_allocated (assigns (\<lambda>slf. slf\<lparr>model := g slf\<rparr>))"
  by (simp add: keeps_allocated_def assigns_def allocated_def)

lemma raises_allocated_del:
  "raises_allocated (and_then del_alpha (\<lambda>_. del_pobs))"
  by (auto simp: raises_allocated_def and_then_def del_alpha_def del_pobs_def allocated_def
      split: attr.splits)

lemma fit_raises_allocated:
  assumes run: "fit env observations nburn nthin save cb s = (Inl e, s')"
    and ne: "observations \<noteq> []" and n: "0 \<le> nstates (self s)"
  shows "allocated (self s')"
proof -
  let ?dims = "[int (fold max (map length observations) 0), nstates (self s)]"
  let ?z = "\<lparr>shape = map nat ?dims, data = replicate (prod_list (map nat ?dims)) 0\<rparr>"
  let ?s5 = "s\<lparr>self := (self s)\<lparr>alpha := Value ?z, pobs := Value ?z\<rparr>\<rparr>"
  let ?rest = "and_then (generate_initial_model env observations) (\<lambda>im.
     and_then (sweeps env (nat nburn) observations (copy_model (copy_model im))) (\<lambda>m.
     and_then (reads nsamples) (\<lambda>ns.
     and_then (collect env (nat ns) (nat nthin) save cb observations m []) (\<lambda>models.
     and_then (assigns (\<lambda>slf. slf\<lparr>model := (model slf)\<lparr>samples := Some models\<rparr>\<rparr>)) (\<lambda>_.
     and_then (assigns (\<lambda>slf. slf\<lparr>model := (model slf)\<lparr>prior := Some (copy_model im)\<rparr>\<rparr>)) (\<lambda>_.
     and_then del_alpha (\<lambda>_. del_pobs)))))))"
  have z: "np_zeros ?dims = Inr ?z"
    using n by (intro np_zeros_nonneg) simp
  have "fit env observations nburn nthin save cb s = ?rest ?s5"
    using ne z
    by (simp add: fit_def Let_def and_then_def reads_def pure_call_def assigns_def)
  with run have r: "?rest ?s5 = (Inl e, s')"
    by simp
  have "raises_allocated ?rest"
    by (intro raises_allocated_and_then raises_allocated_del
        keeps_allocated_generate_initial_model keeps_allocated_assigns_model
        keeps_config_allocated keeps_sweeps keeps_collect keeps_basic)
  moreover have "allocated (self ?s5)"
    by (simp add: allocated_def)
  ultimately show ?thesis
    using r unfolding raises_allocated_def by blast
qed

text \<open>
  C8, as the code has it. A \<open>fit\<close> call that returns normally has deleted \<open>_alpha\<close>
  and \<open>_pobs\<close>. A \<open>fit\<close> call that raises after it has allocated them (the list of
  observations is not empty and \<open>nstates\<close> is not negative) leaves both attached to the
  sampler: there is no \<open>try/finally\<close>, the two \<open>del\<close> statements are the last
  statements of \<open>fit\<close> and run only when nothing raised before.
\<close>

theorem fit_releases_buffers:
  "(fit env observations nburn nthin save cb s = (Inr (), s')
      \<longrightarrow> alpha (self s') = Unset \<and> pobs (self s') = Unset)
   \<and> (fit env observations nburn nthin save cb s = (Inl e, s')
        \<and> observations \<noteq> [] \<and> 0 \<le> nstates (self s)
      \<longrightarrow> alpha (self s') \<noteq> Unset \<and> pobs (self s') \<noteq> Unset)"
  using fit_returns_released [of env observations nburn nthin save cb s s']
    fit_raises_allocated [of env observations nburn nthin save cb s e s']
  by (auto simp: allocated_def)

theorem fit_releases_buffers_witness:
  "fit example_env [[0, 1]] 0 1 False None \<lparr>self = example_sampler, ext = 0\<rparr> =
     (Inr (),
      \<lparr>self = example_sampler
          \<lparr>model := \<lparr>prior = Some example_model, samples = Some [example_model
             \<lparr>initial_distribution := \<lparr>shape = [2], data = [3/4, 1/4]\<rparr>,
              hidden_state_trajectories := Some [[0, 0]],
              hidden_state_trajectory := PyNone\<rparr>]\<rparr>\<rparr>,
       ext = 3\<rparr>)
   \<and> alpha (example_sampler
          \<lparr>model := \<lparr>prior = Some example_model, samples = Some [example_model
             \<lparr>initial_distribution := \<lparr>shape = [2], data = [3/4, 1/4]\<rparr>,
              hidden_state_trajectories := Some [[0, 0]],
              hidden_state_trajectory := PyNone\<rparr>]\<rparr>\<rparr>) = Unset
   \<and> pobs (example_sampler
          \<lparr>model := \<lparr>prior = Some example_model, samples = Some [example_model
             \<lparr>initial_distribution := \<lparr>shape = [2], data = [3/4, 1/4]\<rparr>,
              hidden_state_trajectories := Some [[0, 0]],
              hidden_state_trajectory := PyNone\<rparr>]\<rparr>\<rparr>) = Unset
   \<and> fit example_env [[0, 1]] 0 1 False None \<lparr>self = example_sampler_no_prior, ext = 0\<rparr> =
     (Inl NotImplementedError,
      \<lparr>self = example_sampler_no_prior
          \<lparr>alpha := Value \<lparr>shape = [2, 2], data = [0, 0, 0, 0]\<rparr>,
           pobs := Value \<lparr>shape = [2, 2], data = [0, 0, 0, 0]\<rparr>\<rparr>,
       ext = 1\<rparr>)
   \<and> [[0, 1 :: real]] \<noteq> [] \<and> 0 \<le> nstates example_sampler_no_prior
   \<and> alpha (example_sampler_no_prior
          \<lparr>alpha := Value \<lparr>shape = [2, 2], data = [0, 0, 0, 0]\<rparr>,
           pobs := Value \<lparr>shape = [2, 2], data = [0, 0, 0, 0]\<rparr>\<rparr>) \<noteq> Unset
   \<and> pobs (example_sampler_no_prior
          \<lparr>alpha := Value \<lparr>shape = [2, 2], data = [0, 0, 0, 0]\<rparr>,
           pobs := Value \<lparr>shape = [2, 2], data = [0, 0, 0, 0]\<rparr>\<rparr>) \<noteq> Unset"
proof -
  have n: "0 \<le> nstates example_sampler_no_prior"
    by (simp add: example_sampler_no_prior_def example_sampler_def)
  from fit_releases_buffers [where env = example_env and observations = "[[0, 1]]"
      and nburn = 0 and nthin = 1 and save = False and cb = None
      and s = "\<lparr>self = example_sampler, ext = 0\<rparr>"
      and s' = "\<lparr>self = example_sampler
          \<lparr>model := \<lparr>prior = Some example_model, samples = Some [example_model
             \<lparr>initial_distribution := \<lparr>shape = [2], data = [3/4, 1/4]\<rparr>,
              hidden_state_trajectories := Some [[0, 0]],
              hidden_state_trajectory := PyNone\<rparr>]\<rparr>\<rparr>,
       ext = 3\<rparr>"] example_fit_run
  have a: "alpha (example_sampler
          \<lparr>model := \<lparr>prior = Some example_model, samples = Some [example_model
             \<lparr>initial_distribution := \<lparr>shape = [2], data = [3/4, 1/4]\<rparr>,
              hidden_state_trajectories := Some [[0, 0]],
              hidden_state_trajectory := PyNone\<rparr>]\<rparr>\<rparr>) = Unset
        \<and> pobs (example_sampler
          \<lparr>model := \<lparr>prior = Some example_model, samples = Some [example_model
             \<lparr>initial_distribution := \<lparr>shape = [2], data = [3/4, 1/4]\<rparr>,
              hidden_state_trajectories := Some [[0, 0]],
              hidden_state_trajectory := PyNone\<rparr>]\<rparr>\<rparr>) = Unset"
    by simp
  from fit_releases_buffers [where env = example_env and observations = "[[0, 1]]"
      and nburn = 0 and nthin = 1 and save = False and cb = None
      and s = "\<lparr>self = example_sampler_no_prior, ext = 0\<rparr>"
      and e = NotImplementedError
      and s' = "\<lparr>self = example_sampler_no_prior
          \<lparr>alpha := Value \<lparr>shape = [2, 2], data = [0, 0, 0, 0]\<rparr>,
           pobs := Value \<lparr>shape = [2, 2], data = [0, 0, 0, 0]\<rparr>\<rparr>,
       ext = 1\<rparr>"] example_fit_raises n
  have b: "alpha (example_sampler_no_prior
          \<lparr>alpha := Value \<lparr>shape = [2, 2], data = [0, 0, 0, 0]\<rparr>,
           pobs := Value \<lparr>shape = [2, 2], data = [0, 0, 0, 0]\<rparr>\<rparr>) \<noteq> Unset
        \<and> pobs (example_sampler_no_prior
          \<lparr>alpha := Value \<lparr>shape = [2, 2], data = [0, 0, 0, 0]\<rparr>,
           pobs := Value \<lparr>shape = [2, 2], data = [0, 0, 0, 0]\<rparr>\<rparr>) \<noteq> Unset"
    by simp
  from a b n example_fit_run example_fit_raises show ?thesis
    by simp
qed

text \<open>
  C8 as stated fails when \<open>fit\<close> raises: on the example model with \<open>reversible\<close> and
  no prior counts, the first sweep samples a path that stays in state 0, the count matrix
  is disconnected, \<open>fit\<close> raises \<open>NotImplementedError\<close>, and both buffers are still
  attributes of the sampler.
\<close>

theorem fit_raises_keeps_buffers_counterexample:
  "fst (fit example_env [[0, 1]] 0 1 False None \<lparr>self = example_sampler_no_prior, ext = 0\<rparr>)
     = Inl NotImplementedError
   \<and> alpha (self (snd (fit example_env [[0, 1]] 0 1 False None
        \<lparr>self = example_sampler_no_prior, ext = 0\<rparr>)))
     = Value \<lparr>shape = [2, 2], data = [0, 0, 0, 0]\<rparr>
   \<and> pobs (self (snd (fit example_env [[0, 1]] 0 1 False None
        \<lparr>self = example_sampler_no_prior, ext = 0\<rparr>)))
     = Value \<lparr>shape = [2, 2], data = [0, 0, 0, 0]\<rparr>"
  by (simp add: example_fit_raises)

lemma fit_InrE:
  assumes "fit env observations nburn nthin save cb s = (Inr (), s')"
  obtains a b im s6 m s7 models s9 where
    "observations \<noteq> []"
    and "generate_initial_model env observations
           (s\<lparr>self := (self s)\<lparr>alpha := Value a, pobs := Value b\<rparr>\<rparr>) = (Inr im, s6)"
    and "sweeps env (nat nburn) observations (copy_model (copy_model im)) s6 = (Inr m, s7)"
    and "collect env (nat (nsamples (self s7))) (nat nthin) save cb observations m [] s7
           = (Inr models, s9)"
    and "s' = s9\<lparr>self := (self s9)\<lparr>model := (model (self s9))\<lparr>samples := Some models,
                  prior := Some (copy_model im)\<rparr>, alpha := Unset, pobs := Unset\<rparr>\<rparr>"
proof -
  have ne: "length observations \<noteq> 0"
    using assms by (auto simp: fit_def raises_def)
  from assms ne obtain n s1 a s2 s3 b s4 s5 im s6 m s7 ns s8 models s9 s10 s11 s12
    where st:
      "reads nstates s = (Inr n, s1)"
      "pure_call (np_zeros [int (fold max (map length observations) 0), n]) s1 = (Inr a, s2)"
      "assigns (\<lambda>slf. slf\<lparr>alpha := Value a\<rparr>) s2 = (Inr (), s3)"
      "pure_call (np_zeros [int (fold max (map length observations) 0), n]) s3 = (Inr b, s4)"
      "assigns (\<lambda>slf. slf\<lparr>pobs := Value b\<rparr>) s4 = (Inr (), s5)"
    and gen: "generate_initial_model env observations s5 = (Inr im, s6)"
    and burn: "sweeps env (nat nburn) observations (copy_model (copy_model im)) s6 = (Inr m, s7)"
    and rd: "reads nsamples s7 = (Inr ns, s8)"
    and col: "collect env (nat ns) (nat nthin) save cb observations m [] s8 = (Inr models, s9)"
    and fin:
      "assigns (\<lambda>slf. slf\<lparr>model := (model slf)\<lparr>samples := Some models\<rparr>\<rparr>) s9 = (Inr (), s10)"
      "assigns (\<lambda>slf. slf\<lparr>model := (model slf)\<lparr>prior := Some (copy_model im)\<rparr>\<rparr>) s10
         = (Inr (), s11)"
      "del_alpha s11 = (Inr (), s12)"
      "del_pobs s12 = (Inr (), s')"
    unfolding fit_def Let_def
    by (simp only: if_False) (elim and_then_InrE, simp)
  have s5: "s5 = s\<lparr>self := (self s)\<lparr>alpha := Value a, pobs := Value b\<rparr>\<rparr>"
    using st by (auto simp: reads_def pure_call_def assigns_def)
  have s8: "s8 = s7" "ns = nsamples (self s7)"
    using rd by (auto simp: reads_def)
  have s': "s' = s9\<lparr>self := (self s9)\<lparr>model := (model (self s9))\<lparr>samples := Some models,
                  prior := Some (copy_model im)\<rparr>, alpha := Unset, pobs := Unset\<rparr>\<rparr>"
    using fin by (auto dest!: assigns_InrD del_alpha_InrD del_pobs_InrD)
  show thesis
    using that ne gen burn col s' s5 s8 by simp
qed

text \<open>
  C9. A \<open>fit\<close> call that returns normally had a non-empty list of observation
  sequences, and leaves a posterior with exactly \<open>nsamples\<close> samples and, as its prior,
  a copy of the initial model the sweeps started from: the model given to the
  constructor, or else the one estimated at the start of \<open>fit\<close>.
\<close>

theorem fit_posterior:
  assumes "fit env observations nburn nthin save cb s = (Inr (), s')"
  shows "observations \<noteq> []
       \<and> (\<exists>im models.
            model (self s') = \<lparr>prior = Some (copy_model im), samples = Some models\<rparr>
          \<and> length models = nat (nsamples (self s))
          \<and> initial_model (self s') = Some im
          \<and> Inr im = (case initial_model (self s) of
                        Some m \<Rightarrow> Inr m
                      | None \<Rightarrow> mlhmm env (nstates (self s)) (reversible (self s))
                                  (output_type (self s)) observations))"
proof -
  from assms obtain a b im s6 m s7 models s9 where ne: "observations \<noteq> []"
    and gen: "generate_initial_model env observations
           (s\<lparr>self := (self s)\<lparr>alpha := Value a, pobs := Value b\<rparr>\<rparr>) = (Inr im, s6)"
    and burn: "sweeps env (nat nburn) observations (copy_model (copy_model im)) s6 = (Inr m, s7)"
    and col: "collect env (nat (nsamples (self s7))) (nat nthin) save cb observations m [] s7
           = (Inr models, s9)"
    and s': "s' = s9\<lparr>self := (self s9)\<lparr>model := (model (self s9))\<lparr>samples := Some models,
                  prior := Some (copy_model im)\<rparr>, alpha := Unset, pobs := Unset\<rparr>\<rparr>"
    by (rule fit_InrE)
  have g: "initial_model (self s6) = Some im" "nsamples (self s6) = nsamples (self s)"
    "Inr im = (case initial_model (self s) of
                 Some m \<Rightarrow> Inr m
               | None \<Rightarrow> mlhmm env (nstates (self s)) (reversible (self s))
                           (output_type (self s)) observations)"
    using generate_initial_model_result [OF gen] by (simp_all split: option.splits)
  have k7: "without_buffers (self s7) = without_buffers (self s6)"
    by (rule keeps_configD [OF keeps_sweeps burn])
  have k9: "without_buffers (self s9) = without_buffers (self s7)"
    by (rule keeps_configD [OF keeps_collect col])
  have ns: "nsamples (self s7) = nsamples (self s)"
    using g(2) without_buffers_eqD(1) [OF k7] by simp
  have im9: "initial_model (self s9) = Some im"
    using g(1) without_buffers_eqD(2) [OF k7] without_buffers_eqD(2) [OF k9] by simp
  have len: "length models = nat (nsamples (self s))"
    using collect_length [OF col] ns by simp
  have "model (self s') = \<lparr>prior = Some (copy_model im), samples = Some models\<rparr>"
    by (simp add: s')
  moreover have "initial_model (self s') = Some im"
    using im9 by (simp add: s')
  ultimately show ?thesis
    using len g(3) ne by blast
qed

theorem fit_posterior_witness:
  "fit example_env [[0, 1]] 0 1 False None \<lparr>self = example_sampler, ext = 0\<rparr> =
     (Inr (),
      \<lparr>self = example_sampler
          \<lparr>model := \<lparr>prior = Some example_model, samples = Some [example_model
             \<lparr>initial_distribution := \<lparr>shape = [2], data = [3/4, 1/4]\<rparr>,
              hidden_state_trajectories := Some [[0, 0]],
              hidden_state_trajectory := PyNone\<rparr>]\<rparr>\<rparr>,
       ext = 3\<rparr>)
   \<and> [[0, 1 :: real]] \<noteq> []
   \<and> (\<exists>im models.
        model (example_sampler
          \<lparr>model := \<lparr>prior = Some example_model, samples = Some [example_model
             \<lparr>initial_distribution := \<lparr>shape = [2], data = [3/4, 1/4]\<rparr>,
              hidden_state_trajectories := Some [[0, 0]],
              hidden_state_trajectory := PyNone\<rparr>]\<rparr>\<rparr>)
          = \<lparr>prior = Some (copy_model im), samples = Some models\<rparr>
      \<and> length models = nat (nsamples example_sampler))"
  using fit_posterior [OF example_fit_run] example_fit_run
  by auto

text \<open>
  Every sweep assigns \<open>hidden_state_trajectories\<close>, and neither the later steps of the
  sweep nor the snapshot remove it: with at least one sweep per sample, every stored
  sample holds trajectories, for all collaborators.
\<close>

lemma for_each_pure_InrD:
  "for_each (\<lambda>x. pure_call (g x)) xs s = (Inr ys, s1) \<Longrightarrow> s1 = s"
proof (induction xs arbitrary: ys s1)
  case Nil
  then show ?case by (simp add: returns_def)
next
  case (Cons x xs)
  then show ?case
    by (auto simp: and_then_def pure_call_def returns_def split: sum.splits prod.splits)
qed

lemma update_hidden_state_trajectories_sets:
  assumes "update_hidden_state_trajectories env m observations s = (Inr m1, s1)"
  shows "\<exists>S. m1 = m\<lparr>hidden_state_trajectories := Some S\<rparr>"
  using assms unfolding update_hidden_state_trajectories_def
  by (auto elim!: and_then_InrE dest!: returns_InrD)

lemma update_emission_probabilities_trajectories:
  assumes "update_emission_probabilities env m observations s = (Inr m1, s1)"
  shows "hidden_state_trajectories m1 = hidden_state_trajectories m"
  using assms unfolding update_emission_probabilities_def
  by (auto elim!: and_then_InrE dest!: returns_InrD)

lemma update_transition_matrix_trajectories:
  assumes "update_transition_matrix env m s = (Inr m1, s1)"
  shows "hidden_state_trajectories m1 = hidden_state_trajectories m"
proof -
  from assms obtain p0 Tij s12 where "returns (hmm_update m p0 Tij) s12 = (Inr m1, s1)"
    unfolding update_transition_matrix_def
    by (elim and_then_InrE) blast
  then show ?thesis
    by (auto simp: hmm_update_def dest!: returns_InrD)
qed

lemma update_sets_trajectories:
  assumes "update env m observations s = (Inr m1, s1)"
  shows "hidden_state_trajectories m1 \<noteq> None"
proof -
  from assms obtain ma sa mb sb where
    a: "update_hidden_state_trajectories env m observations s = (Inr ma, sa)"
    and b: "update_emission_probabilities env ma observations sa = (Inr mb, sb)"
    and c: "update_transition_matrix env mb sb = (Inr m1, s1)"
    unfolding update_def by (elim and_then_InrE) blast
  from update_hidden_state_trajectories_sets [OF a]
    update_emission_probabilities_trajectories [OF b]
    update_transition_matrix_trajectories [OF c]
  show ?thesis by auto
qed

lemma sweeps_set_trajectories:
  "sweeps env k observations m s = (Inr m1, s1) \<Longrightarrow>
   0 < k \<or> hidden_state_trajectories m \<noteq> None \<Longrightarrow>
   hidden_state_trajectories m1 \<noteq> None"
proof (induction k arbitrary: m s)
  case 0
  then show ?case by (auto dest!: returns_InrD)
next
  case (Suc k)
  from Suc.prems(1) obtain ma sa where
    a: "update env m observations s = (Inr ma, sa)"
    and b: "sweeps env k observations ma sa = (Inr m1, s1)"
    by (simp only: sweeps.simps) (erule and_then_InrE)
  from update_sets_trajectories [OF a] Suc.IH [OF b] show ?case
    by simp
qed

lemma collect_keeps_trajectories:
  "collect env k nthin save cb observations m models s = (Inr ms, s1) \<Longrightarrow>
   0 < nthin \<Longrightarrow>
   list_all (\<lambda>x. hidden_state_trajectories x \<noteq> None) models \<Longrightarrow>
   list_all (\<lambda>x. hidden_state_trajectories x \<noteq> None) ms"
proof (induction k arbitrary: m models s)
  case 0
  then show ?case by (auto dest!: returns_InrD)
next
  case (Suc k)
  let ?snap = "\<lambda>m1. if \<not> save then (copy_model m1)\<lparr>hidden_state_trajectory := PyNone\<rparr>
                     else copy_model m1"
  from Suc.prems(1) obtain m1 sa sb where
    a: "sweeps env nthin observations m sa = (Inr m1, sb)"
    and b: "\<exists>sc. collect env k nthin save cb observations m1 (models @ [?snap m1]) sc
              = (Inr ms, s1)"
    by (simp add: Let_def) (elim and_then_InrE, blast)
  have "hidden_state_trajectories m1 \<noteq> None"
    using sweeps_set_trajectories [OF a] Suc.prems(2) by simp
  then have "list_all (\<lambda>x. hidden_state_trajectories x \<noteq> None) (models @ [?snap m1])"
    using Suc.prems(3) by (simp add: copy_model_def)
  with b Suc.IH Suc.prems(2) show ?case
    by blast
qed

lemma stored_samples_keep_trajectories:
  assumes "fit env observations nburn nthin False cb s = (Inr (), s')" and "0 < nthin"
  shows "\<exists>models. samples (model (self s')) = Some models
           \<and> list_all (\<lambda>x. hidden_state_trajectories x \<noteq> None) models"
proof -
  from assms(1) obtain m s7 models s9 im where
    col: "collect env (nat (nsamples (self s7))) (nat nthin) False cb observations m [] s7
           = (Inr models, s9)"
    and s': "s' = s9\<lparr>self := (self s9)\<lparr>model := (model (self s9))\<lparr>samples := Some models,
                  prior := Some (copy_model im)\<rparr>, alpha := Unset, pobs := Unset\<rparr>\<rparr>"
    by (rule fit_InrE)
  have "list_all (\<lambda>x. hidden_state_trajectories x \<noteq> None) models"
    using collect_keeps_trajectories [OF col] assms(2) by simp
  then show ?thesis
    by (simp add: s')
qed

text \<open>
  C1 fails on the code. The sweep assigns \<open>hidden_state_trajectories\<close>; \<open>fit\<close> sets
  \<open>hidden_state_trajectory\<close>, another attribute, to \<open>None\<close> on the copy. With
  \<open>save_hidden_state_trajectory\<close> left \<open>False\<close>, the stored sample of the example run
  still holds the path sampled in the sweep.
\<close>

theorem snapshot_keeps_trajectories:
  "fst (fit example_env [[0, 1]] 0 1 False None \<lparr>self = example_sampler, ext = 0\<rparr>) = Inr ()
   \<and> map_option (map hidden_state_trajectories)
       (samples (model (self (snd (fit example_env [[0, 1]] 0 1 False None
          \<lparr>self = example_sampler, ext = 0\<rparr>)))))
     = Some [Some [[0, 0]]]
   \<and> map_option (map hidden_state_trajectory)
       (samples (model (self (snd (fit example_env [[0, 1]] 0 1 False None
          \<lparr>self = example_sampler, ext = 0\<rparr>)))))
     = Some [PyNone]"
  by (simp add: example_fit_run)

end
